theory Spec2Isabelle
  imports Complex_Main
begin

section \<open>The search-trends fetcher (fetch/google_trends.py)\<close>

text \<open>
  A shallow embedding of \<^verbatim>\<open>src/fetch/google_trends.py\<close>. Python floats and
  timestamps are real numbers, text is a list of characters (ASCII), the files under
  \<^verbatim>\<open>cache/\<close> and the wall clock are fields of an explicit \<open>world\<close> that every
  operation takes and returns, and the answers of the outside services (the suggestion
  lookup and the trends provider) are fields of an \<open>env\<close> the operations read.
  An exception is a value \<open>Inl e\<close> of a sum type. The two time sources
  (\<^verbatim>\<open>time.time()\<close> and \<^verbatim>\<open>datetime.now()\<close>) are one clock, which only the waits
  of the code advance during a call; the existence tests on the files
  (\<^verbatim>\<open>Path.exists()\<close>) do not fail; printing is left out.
\<close>

subsection \<open>Text\<close>

definition py_lower_char :: "char \<Rightarrow> char" where
  "py_lower_char c =
     (let n = (of_char c :: nat) in if 65 \<le> n \<and> n \<le> 90 then char_of (n + 32) else c)"

text \<open>\<^verbatim>\<open>str.lower()\<close> on ASCII text.\<close>

definition py_lower :: "string \<Rightarrow> string" where
  "py_lower s = map py_lower_char s"

text \<open>The ASCII characters that \<^verbatim>\<open>str.strip()\<close> removes: tab, line feed, vertical tab,
  form feed, carriage return, the four separators 28 to 31 and the space.\<close>

definition py_isspace :: "char \<Rightarrow> bool" where
  "py_isspace c =
     (let n = (of_char c :: nat) in (9 \<le> n \<and> n \<le> 13) \<or> (28 \<le> n \<and> n \<le> 32))"

definition py_strip :: "string \<Rightarrow> string" where
  "py_strip s = rev (dropWhile py_isspace (rev (dropWhile py_isspace s)))"

fun starts_with :: "string \<Rightarrow> string \<Rightarrow> bool" where
  "starts_with [] s = True"
| "starts_with (c # cs) [] = False"
| "starts_with (c # cs) (d # ds) = (c = d \<and> starts_with cs ds)"

text \<open>\<open>contains t s\<close> is Python's \<^verbatim>\<open>t in s\<close> on two texts.\<close>

fun contains :: "string \<Rightarrow> string \<Rightarrow> bool" where
  "contains t [] = (t = [])"
| "contains t (c # cs) = (starts_with t (c # cs) \<or> contains t cs)"

subsection \<open>Exceptions\<close>

datatype exn_class = TypeError | ValueError | OSError | ProviderError

text \<open>An exception: its class and the text \<^verbatim>\<open>str(e)\<close>.\<close>

datatype exn = Exn exn_class string

fun exn_class_of :: "exn \<Rightarrow> exn_class" where
  "exn_class_of (Exn c m) = c"

fun exn_message :: "exn \<Rightarrow> string" where
  "exn_message (Exn c m) = m"

subsection \<open>Data\<close>

text \<open>The \<^verbatim>\<open>value\<close> cell of a provider row: a number, or a text such as the
  sentinel \<^verbatim>\<open>'Breakout'\<close>.\<close>

datatype raw_value = Num real | Txt string

record raw_row =
  row_query :: string
  row_value :: raw_value

text \<open>One entry of the \<^verbatim>\<open>related_queries()\<close> dictionary: the \<^verbatim>\<open>"rising"\<close>
  and \<^verbatim>\<open>"top"\<close> tables, each absent (\<open>None\<close>) or a list of rows (empty for an
  empty table). The dictionary is the list of its items in iteration order.\<close>

record query_group =
  rising_rows :: "raw_row list option"
  top_rows :: "raw_row list option"

type_synonym rq_data = "(string \<times> query_group) list"

text \<open>A result dictionary \<^verbatim>\<open>{"keyword", "score", "type", "source", "timestamp"}\<close>.\<close>

record trend_record =
  keyword :: string
  score :: real
  rtype :: string
  source :: string
  timestamp :: real

text \<open>A row of the \<^verbatim>\<open>interest_over_time()\<close> table: column name to cell; the table
  is the list of its rows, oldest first.\<close>

type_synonym series = "(string \<times> raw_value) list"
type_synonym dataframe = "series list"

text \<open>The suggestion lookup for one seed: \<^verbatim>\<open>requests.get\<close> raises, or a
  response arrives with a status code and a body whose \<^verbatim>\<open>r.json()[1]\<close> is a list of
  texts (\<open>None\<close> when reading it raises).\<close>

datatype suggest_reply = Lookup_failed exn | Lookup_reply nat "string list option"

text \<open>What the outside answers. \<open>str_hash\<close> fixes the iteration order of a Python set
  of texts; \<open>trendreq_full\<close> and \<open>trendreq_basic\<close> are the two constructor calls
  of \<^verbatim>\<open>TrendReq\<close> (\<open>None\<close>: the object is built); \<open>related_queries\<close> is indexed by
  the attempt; \<open>trending_searches\<close> is the call together with the column
  \<^verbatim>\<open>trending[0]\<close> of its answer.\<close>

record env =
  suggest :: "string \<Rightarrow> suggest_reply"
  str_hash :: "string \<Rightarrow> nat"
  trendreq_full :: "exn option"
  trendreq_basic :: "exn option"
  build_payload :: "string list \<Rightarrow> string \<Rightarrow> string \<Rightarrow> exn option"
  related_queries :: "nat \<Rightarrow> exn + rq_data"
  interest_over_time :: "exn + dataframe option"
  trending_searches :: "string \<Rightarrow> exn + string list"

datatype cache_file = Corrupt | Entry real "trend_record list"

datatype stamp_file = Garbled | Stamp real

datatype event = Request string | Sleep_fixed real | Sleep_uniform real real

text \<open>The mutable world: the clock in seconds, the files \<^verbatim>\<open>cache/<key>.json\<close>, the
  file \<^verbatim>\<open>cache/last_google_request.txt\<close>, whether opening a file for writing fails
  (with the text of the \<^verbatim>\<open>OSError\<close>), the values \<^verbatim>\<open>random.random()\<close> will
  return and how many were used, and the trace of outbound calls and waits.\<close>

record world =
  clock :: real
  cache :: "string \<Rightarrow> cache_file option"
  last_request :: "stamp_file option"
  write_error :: "string option"
  rand :: "nat \<Rightarrow> real"
  rand_next :: nat
  trace :: "event list"

definition request :: "string \<Rightarrow> world \<Rightarrow> world" where
  "request name w = w\<lparr>trace := trace w @ [Request name]\<rparr>"

text \<open>\<^verbatim>\<open>time.sleep(d)\<close> for a fixed \<open>d\<close>.\<close>

definition sleep_fixed :: "real \<Rightarrow> world \<Rightarrow> world" where
  "sleep_fixed d w = w\<lparr>clock := clock w + d, trace := trace w @ [Sleep_fixed d]\<rparr>"

text \<open>\<^verbatim>\<open>time.sleep(random.uniform(a, b))\<close>: the draw is
  \<^verbatim>\<open>a + (b - a) * random.random()\<close>.\<close>

definition sleep_uniform :: "real \<Rightarrow> real \<Rightarrow> world \<Rightarrow> world" where
  "sleep_uniform a b w =
     w\<lparr>clock := clock w + (a + (b - a) * rand w (rand_next w)),
       rand_next := Suc (rand_next w),
       trace := trace w @ [Sleep_uniform a b]\<rparr>"

text \<open>Time passing between two calls.\<close>

definition elapse :: "real \<Rightarrow> world \<Rightarrow> world" where
  "elapse d w = w\<lparr>clock := clock w + d\<rparr>"

subsection \<open>Request throttle\<close>

definition MIN_REQUEST_INTERVAL :: real where
  "MIN_REQUEST_INTERVAL = 60"

definition can_make_request :: "world \<Rightarrow> bool" where
  "can_make_request w =
     (case last_request w of
        None \<Rightarrow> True
      | Some Garbled \<Rightarrow> True
      | Some (Stamp last_request_time) \<Rightarrow>
          (let time_since_last = clock w - last_request_time
           in if time_since_last < MIN_REQUEST_INTERVAL then False else True))"

definition record_request_time :: "world \<Rightarrow> exn + world" where
  "record_request_time w =
     (case write_error w of
        Some msg \<Rightarrow> Inl (Exn OSError msg)
      | None \<Rightarrow> Inr (w\<lparr>last_request := Some (Stamp (clock w))\<rparr>))"

subsection \<open>Response cache\<close>

definition get_cached_results :: "string \<Rightarrow> real \<Rightarrow> world \<Rightarrow> trend_record list option" where
  "get_cached_results cache_key max_age_hours w =
     (case cache w cache_key of
        None \<Rightarrow> None
      | Some Corrupt \<Rightarrow> None
      | Some (Entry cache_time results) \<Rightarrow>
          (let age = clock w - cache_time
           in if age < max_age_hours * 3600 then Some results else None))"

definition save_to_cache :: "string \<Rightarrow> trend_record list \<Rightarrow> world \<Rightarrow> world" where
  "save_to_cache cache_key results w =
     (case write_error w of
        Some msg \<Rightarrow> w
      | None \<Rightarrow> w\<lparr>cache := (cache w)(cache_key \<mapsto> Entry (clock w) results)\<rparr>)"

subsection \<open>Keyword discovery\<close>

definition seed_terms :: "string list" where
  "seed_terms = [''education'', ''exam'', ''online course'', ''study tips'', ''scholarship'']"

text \<open>A Python set of texts is the list of its elements in insertion order, without
  repetition; \<^verbatim>\<open>set.update\<close> appends the elements that are new.\<close>

definition set_update :: "string list \<Rightarrow> string list \<Rightarrow> string list" where
  "set_update acc xs = foldl (\<lambda>a x. if x \<in> set a then a else a @ [x]) acc xs"

text \<open>\<^verbatim>\<open>list(s)\<close> of a set: the elements in the order of their hashes.\<close>

definition list_of_set :: "env \<Rightarrow> string list \<Rightarrow> string list" where
  "list_of_set e s = sort_key (str_hash e) s"

fun discover :: "env \<Rightarrow> string list \<Rightarrow> string list \<Rightarrow> world \<Rightarrow> string list \<times> world" where
  "discover e [] all_keywords w = (all_keywords, w)"
| "discover e (seed # seeds) all_keywords w =
     (case suggest e seed of
        Lookup_failed ex \<Rightarrow> discover e seeds all_keywords (request ''suggest'' w)
      | Lookup_reply status_code body \<Rightarrow>
          (if status_code = 200 then
             (case body of
                None \<Rightarrow> discover e seeds all_keywords (request ''suggest'' w)
              | Some suggestions \<Rightarrow>
                  discover e seeds (set_update all_keywords (take 2 suggestions))
                    (sleep_uniform 1 2 (request ''suggest'' w)))
           else discover e seeds all_keywords (sleep_uniform 1 2 (request ''suggest'' w))))"

definition fetch_dynamic_keywords :: "env \<Rightarrow> world \<Rightarrow> string list \<times> world" where
  "fetch_dynamic_keywords e w =
     (case discover e (take 3 seed_terms) (set_update [] seed_terms) w of
        (all_keywords, w') \<Rightarrow> (take 10 (list_of_set e all_keywords), w'))"

subsection \<open>Scores and ranking\<close>

definition is_digit :: "char \<Rightarrow> bool" where
  "is_digit c = (let n = (of_char c :: nat) in 48 \<le> n \<and> n \<le> 57)"

definition digits_value :: "string \<Rightarrow> nat" where
  "digits_value s = foldl (\<lambda>n c. 10 * n + (of_char c - 48)) 0 s"

text \<open>\<^verbatim>\<open>float(v)\<close>. A number is itself. Of the texts Python accepts, the model reads
  the plain digit strings; every other text raises \<^verbatim>\<open>ValueError\<close>, which is what
  Python does on any text that is not a numeral, the sentinel \<^verbatim>\<open>'Breakout'\<close> among
  them.\<close>

definition py_float :: "raw_value \<Rightarrow> exn + real" where
  "py_float v =
     (case v of
        Num x \<Rightarrow> Inr x
      | Txt s \<Rightarrow>
          (if s \<noteq> [] \<and> list_all is_digit s then Inr (real (digits_value s))
           else Inl (Exn ValueError
                  (''could not convert string to float: '' @ [CHR 0x27] @ s @ [CHR 0x27]))))"

text \<open>\<^verbatim>\<open>100 if row['value'] == 'Breakout' else float(row['value'])\<close>\<close>

definition rising_score :: "raw_value \<Rightarrow> exn + real" where
  "rising_score v = (if v = Txt ''Breakout'' then Inr 100 else py_float v)"

text \<open>\<^verbatim>\<open>float(row['value'])\<close>\<close>

definition top_score :: "raw_value \<Rightarrow> exn + real" where
  "top_score v = py_float v"

text \<open>The dictionary appended for a row of a \<^verbatim>\<open>"rising"\<close> table, and of a
  \<^verbatim>\<open>"top"\<close> table.\<close>

definition rising_record :: "real \<Rightarrow> raw_row \<Rightarrow> exn + trend_record" where
  "rising_record now row =
     (case rising_score (row_value row) of
        Inl ex \<Rightarrow> Inl ex
      | Inr s \<Rightarrow> Inr \<lparr>keyword = row_query row, score = s, rtype = ''rising'',
                     source = ''google_trends'', timestamp = now\<rparr>)"

definition top_record :: "real \<Rightarrow> raw_row \<Rightarrow> exn + trend_record" where
  "top_record now row =
     (case top_score (row_value row) of
        Inl ex \<Rightarrow> Inl ex
      | Inr s \<Rightarrow> Inr \<lparr>keyword = row_query row, score = s, rtype = ''top'',
                     source = ''google_trends'', timestamp = now\<rparr>)"

text \<open>The two inner loops have one shape: \<open>scan_rows\<close> is that loop, given the
  dictionary builder of the table. The accumulator is \<^verbatim>\<open>results\<close> and
  \<^verbatim>\<open>seen_keywords\<close>.\<close>

fun scan_rows :: "(raw_row \<Rightarrow> exn + trend_record) \<Rightarrow> raw_row list
    \<Rightarrow> trend_record list \<times> string set \<Rightarrow> exn + trend_record list \<times> string set" where
  "scan_rows build [] acc = Inr acc"
| "scan_rows build (row # rows) (results, seen_keywords) =
     (let kw = py_strip (py_lower (row_query row)) in
      if kw \<notin> seen_keywords then
        (case build row of
           Inl ex \<Rightarrow> Inl ex
         | Inr r \<Rightarrow> scan_rows build rows (results @ [r], insert kw seen_keywords))
      else scan_rows build rows (results, seen_keywords))"

text \<open>\<^verbatim>\<open>if t is not None and not t.empty: for _, row in t.iterrows(): ...\<close>\<close>

definition scan_table :: "(raw_row \<Rightarrow> exn + trend_record) \<Rightarrow> raw_row list option
    \<Rightarrow> trend_record list \<times> string set \<Rightarrow> exn + trend_record list \<times> string set" where
  "scan_table build t acc =
     (case t of
        None \<Rightarrow> Inr acc
      | Some rows \<Rightarrow> if rows = [] then Inr acc else scan_rows build rows acc)"

text \<open>\<^verbatim>\<open>for key in data: ...\<close>\<close>

fun scan_groups :: "real \<Rightarrow> rq_data
    \<Rightarrow> trend_record list \<times> string set \<Rightarrow> exn + trend_record list \<times> string set" where
  "scan_groups now [] acc = Inr acc"
| "scan_groups now ((key, g) # data) acc =
     (case scan_table (rising_record now) (rising_rows g) acc of
        Inl ex \<Rightarrow> Inl ex
      | Inr acc1 \<Rightarrow>
          (case scan_table (top_record now) (top_rows g) acc1 of
             Inl ex \<Rightarrow> Inl ex
           | Inr acc2 \<Rightarrow> scan_groups now data acc2))"

text \<open>Lines 216 to 250: \<^verbatim>\<open>results\<close> when the loops end.\<close>

definition collect_rows :: "real \<Rightarrow> rq_data \<Rightarrow> exn + trend_record list" where
  "collect_rows now data =
     (case scan_groups now data ([], {}) of
        Inl ex \<Rightarrow> Inl ex
      | Inr (results, seen_keywords) \<Rightarrow> Inr results)"

text \<open>\<^verbatim>\<open>results.sort(key=lambda x: x['score'], reverse=True)\<close>: CPython reverses
  the list, sorts it stably by the key in ascending order, and reverses it again.\<close>

definition py_sort_desc :: "trend_record list \<Rightarrow> trend_record list" where
  "py_sort_desc results = rev (sort_key score (rev results))"

subsection \<open>Fallback query\<close>

text \<open>\<^verbatim>\<open>df.empty\<close>: no row, or no column.\<close>

definition df_empty :: "dataframe \<Rightarrow> bool" where
  "df_empty df = (case df of [] \<Rightarrow> True | r # rs \<Rightarrow> r = [])"

text \<open>\<^verbatim>\<open>last.get(kw, 0)\<close>\<close>

definition series_get :: "series \<Rightarrow> string \<Rightarrow> raw_value" where
  "series_get s kw = (case map_of s kw of None \<Rightarrow> Num 0 | Some v \<Rightarrow> v)"

fun interest_rows :: "real \<Rightarrow> series \<Rightarrow> string list \<Rightarrow> trend_record list
    \<Rightarrow> exn + trend_record list" where
  "interest_rows now lst [] results = Inr results"
| "interest_rows now lst (kw # kws) results =
     (case py_float (series_get lst kw) of
        Inl ex \<Rightarrow> Inl ex
      | Inr s \<Rightarrow>
          (if s > 0 then
             interest_rows now lst kws
               (results @ [\<lparr>keyword = kw, score = s, rtype = ''interest'',
                             source = ''google_trends_fallback'', timestamp = now\<rparr>])
           else interest_rows now lst kws results))"

text \<open>The body of the \<^verbatim>\<open>try\<close> of \<^verbatim>\<open>fallback_interest\<close>.\<close>

definition fallback_body :: "env \<Rightarrow> string list \<Rightarrow> string \<Rightarrow> world
    \<Rightarrow> (exn + trend_record list) \<times> world" where
  "fallback_body e keywords cache_key w =
     (let w1 = request ''interest_over_time'' w in
      case interest_over_time e of
        Inl ex \<Rightarrow> (Inl ex, w1)
      | Inr None \<Rightarrow> (Inr [], w1)
      | Inr (Some df) \<Rightarrow>
          (if df_empty df then (Inr [], w1)
           else
             (case interest_rows (clock w1) (last df) keywords [] of
                Inl ex \<Rightarrow> (Inl ex, w1)
              | Inr results \<Rightarrow>
                  (let sorted_results = py_sort_desc results
                   in (Inr sorted_results, save_to_cache cache_key sorted_results w1)))))"

definition fallback_interest :: "env \<Rightarrow> string list \<Rightarrow> string \<Rightarrow> world
    \<Rightarrow> (exn + trend_record list) \<times> world" where
  "fallback_interest e keywords cache_key w =
     (case fallback_body e keywords cache_key w of
        (Inl ex, w') \<Rightarrow> (Inr [], w')
      | (Inr results, w') \<Rightarrow> (Inr results, w'))"

subsection \<open>Trend retrieval\<close>

text \<open>\<^verbatim>\<open>for attempt in range(3)\<close>, over the attempts still to make.\<close>

fun related_queries_retry :: "env \<Rightarrow> nat list \<Rightarrow> world \<Rightarrow> rq_data option \<times> world" where
  "related_queries_retry e [] w = (None, w)"
| "related_queries_retry e (attempt # attempts) w =
     (case related_queries e attempt of
        Inr data \<Rightarrow> (Some data, request ''related_queries'' w)
      | Inl ex \<Rightarrow>
          (if contains ''429'' (exn_message ex) then
             related_queries_retry e attempts
               (sleep_fixed ((2 ^ attempt) * 30) (request ''related_queries'' w))
           else
             related_queries_retry e attempts
               (sleep_uniform 5 10 (request ''related_queries'' w))))"

text \<open>Lines 216 to 263, once \<^verbatim>\<open>data\<close> is there.\<close>

definition process_data :: "env \<Rightarrow> string list \<Rightarrow> string \<Rightarrow> rq_data \<Rightarrow> world
    \<Rightarrow> (exn + trend_record list) \<times> world" where
  "process_data e keywords cache_key data w =
     (case collect_rows (clock w) data of
        Inl ex \<Rightarrow> (Inl ex, w)
      | Inr results \<Rightarrow>
          (if length results = 0 then fallback_interest e keywords cache_key w
           else
             (let sorted_results = py_sort_desc results
              in (Inr sorted_results, save_to_cache cache_key sorted_results w))))"

text \<open>The body of the \<^verbatim>\<open>try\<close> of \<^verbatim>\<open>fetch_google_trends\<close> (lines 187 to 263).\<close>

definition primary_query :: "env \<Rightarrow> string list \<Rightarrow> string \<Rightarrow> string \<Rightarrow> string \<Rightarrow> world
    \<Rightarrow> (exn + trend_record list) \<times> world" where
  "primary_query e keywords geo timeframe cache_key w =
     (let w1 = request ''build_payload'' w in
      case build_payload e keywords timeframe geo of
        Some ex \<Rightarrow> (Inl ex, w1)
      | None \<Rightarrow>
          (case record_request_time w1 of
             Inl ex \<Rightarrow> (Inl ex, w1)
           | Inr w2 \<Rightarrow>
               (case related_queries_retry e [0, 1, 2] w2 of
                  (None, w3) \<Rightarrow> fallback_interest e keywords cache_key w3
                | (Some data, w3) \<Rightarrow> process_data e keywords cache_key data w3)))"

text \<open>The \<^verbatim>\<open>try: TrendReq(..., timeout, retries, backoff_factor, ...)
  except TypeError: TrendReq(...)\<close> before the main \<^verbatim>\<open>try\<close>.\<close>

definition make_trendreq :: "env \<Rightarrow> world \<Rightarrow> (exn + unit) \<times> world" where
  "make_trendreq e w =
     (let w1 = request ''TrendReq'' w in
      case trendreq_full e of
        None \<Rightarrow> (Inr (), w1)
      | Some ex \<Rightarrow>
          (if exn_class_of ex = TypeError then
             (let w2 = request ''TrendReq'' w1 in
              case trendreq_basic e of None \<Rightarrow> (Inr (), w2) | Some ex2 \<Rightarrow> (Inl ex2, w2))
           else (Inl ex, w1)))"

text \<open>\<^verbatim>\<open>if cached: return cached\<close>: an empty list is false.\<close>

fun truthy :: "trend_record list option \<Rightarrow> bool" where
  "truthy None = False"
| "truthy (Some []) = False"
| "truthy (Some (r # rs)) = True"

text \<open>The \<^verbatim>\<open>except Exception as e\<close> of \<^verbatim>\<open>fetch_google_trends\<close>.\<close>

definition on_error :: "string \<Rightarrow> exn \<Rightarrow> world \<Rightarrow> trend_record list" where
  "on_error cache_key ex w =
     (let error_msg = exn_message ex in
      if contains ''429'' error_msg \<or> contains ''rate'' (py_lower error_msg) then
        (let cached = get_cached_results cache_key 24 w
         in if truthy cached then the cached else [])
      else [])"

definition fetch_google_trends :: "env \<Rightarrow> string \<Rightarrow> string \<Rightarrow> bool \<Rightarrow> real \<Rightarrow> world
    \<Rightarrow> (exn + trend_record list) \<times> world" where
  "fetch_google_trends e geo timeframe use_cache cache_hours w =
     (let cache_key = ''google_trends_'' @ geo @ ''_'' @ timeframe;
          cached = (if use_cache then get_cached_results cache_key cache_hours w else None)
      in
      if truthy cached then (Inr (the cached), w)
      else if \<not> can_make_request w then
        (let cached = get_cached_results cache_key 24 w
         in if truthy cached then (Inr (the cached), w) else (Inr [], w))
      else
        (case fetch_dynamic_keywords e w of
           (keywords, w1) \<Rightarrow>
             (case make_trendreq e w1 of
                (Inl ex, w2) \<Rightarrow> (Inl ex, w2)
              | (Inr pytrends, w2) \<Rightarrow>
                  (case primary_query e keywords geo timeframe cache_key w2 of
                     (Inl ex, w3) \<Rightarrow> (Inr (on_error cache_key ex w3), w3)
                   | (Inr results, w3) \<Rightarrow> (Inr results, w3)))))"

subsection \<open>Lightweight trending list\<close>

definition edu_keywords :: "string list" where
  "edu_keywords =
     [''exam'', ''result'', ''admission'', ''course'', ''university'',
      ''college'', ''school'', ''education'', ''student'', ''study'',
      ''test'', ''entrance'', ''scholarship'', ''degree'', ''learning'',
      ''jee'', ''neet'', ''upsc'', ''gate'', ''cat'', ''gre'', ''ielts'']"

text \<open>\<^verbatim>\<open>any(term in keyword.lower() for term in edu_keywords)\<close>\<close>

definition is_education :: "string \<Rightarrow> bool" where
  "is_education kw = list_ex (\<lambda>term. contains term (py_lower kw)) edu_keywords"

fun trending_rows :: "real \<Rightarrow> (nat \<times> string) list \<Rightarrow> trend_record list \<Rightarrow> trend_record list" where
  "trending_rows now [] results = results"
| "trending_rows now ((idx, kw) # rest) results =
     (if is_education kw then
        trending_rows now rest
          (results @ [\<lparr>keyword = kw, score = 100 - real idx, rtype = ''trending'',
                        source = ''google_trending'', timestamp = now\<rparr>])
      else trending_rows now rest results)"

text \<open>The body of the \<^verbatim>\<open>try\<close> of \<^verbatim>\<open>get_trending_topics\<close>.\<close>

definition trending_body :: "env \<Rightarrow> string \<Rightarrow> string \<Rightarrow> world
    \<Rightarrow> (exn + trend_record list) \<times> world" where
  "trending_body e geo cache_key w =
     (let w1 = request ''TrendReq'' w in
      case trendreq_basic e of
        Some ex \<Rightarrow> (Inl ex, w1)
      | None \<Rightarrow>
          (let w2 = request ''trending_searches'' w1 in
           case trending_searches e (py_lower geo) of
             Inl ex \<Rightarrow> (Inl ex, w2)
           | Inr trending \<Rightarrow>
               (let results = trending_rows (clock w2) (enumerate 0 trending) []
                in (Inr results, save_to_cache cache_key results w2))))"

definition get_trending_topics :: "env \<Rightarrow> string \<Rightarrow> world
    \<Rightarrow> (exn + trend_record list) \<times> world" where
  "get_trending_topics e geo w =
     (let cache_key = ''trending_topics_'' @ geo;
          cached = get_cached_results cache_key (1 / 2) w
      in
      if truthy cached then (Inr (the cached), w)
      else
        (case trending_body e geo cache_key w of
           (Inl ex, w') \<Rightarrow> (Inr [], w')
         | (Inr results, w') \<Rightarrow> (Inr results, w')))"

section \<open>Definitions for the statements\<close>










text \<open>The dictionary \<^verbatim>\<open>get_trending_topics\<close> appends for the entry at an index of
  the provider's list.\<close>

definition trending_record :: "real \<Rightarrow> nat \<times> string \<Rightarrow> trend_record" where
  "trending_record now p =
     \<lparr>keyword = snd p, score = 100 - real (fst p), rtype = ''trending'',
      source = ''google_trending'', timestamp = now\<rparr>"

section \<open>Concrete inputs\<close>

text \<open>A world with an empty cache directory, writable, at second 1000.\<close>

definition world0 :: world where
  "world0 = \<lparr>clock = 1000, cache = Map.empty, last_request = None, write_error = None,
             rand = (\<lambda>n. 1 / 2), rand_next = 0, trace = []\<rparr>"

definition rec0 :: trend_record where
  "rec0 = \<lparr>keyword = ''exam result'', score = 100, rtype = ''rising'',
           source = ''google_trends'', timestamp = 1000\<rparr>"

text \<open>An outside where every suggestion lookup answers 404, the provider object is
  built, the related-queries answer is an empty dictionary, there is no interest table,
  and the trending list is the one of the specification's scenario.\<close>

definition env0 :: env where
  "env0 = \<lparr>suggest = (\<lambda>seed. Lookup_reply 404 None), str_hash = (\<lambda>s. 0),
            trendreq_full = None, trendreq_basic = None,
            build_payload = (\<lambda>kws tf geo. None),
            related_queries = (\<lambda>attempt. Inr []),
            interest_over_time = Inr None,
            trending_searches =
              (\<lambda>pn. Inr [''iPhone 16 launch'', ''JEE Main result 2025'', ''Cricket score''])\<rparr>"

text \<open>The lookup for the seed \<open>exam\<close> suggests \<open>Exam\<close>, and the interest table has
  a positive value for both spellings.\<close>

definition env_dup :: env where
  "env_dup = env0
     \<lparr>suggest := (\<lambda>seed. if seed = ''exam'' then Lookup_reply 200 (Some [''Exam''])
                         else Lookup_reply 404 None),
      interest_over_time := Inr (Some [[(''exam'', Num 50), (''Exam'', Num 40)]])\<rparr>"

text \<open>The constructor of the provider object fails on the network.\<close>

definition env_down :: env where
  "env_down = env0\<lparr>trendreq_full := Some (Exn ProviderError ''Connection aborted'')\<rparr>"


text \<open>The cache holds an entry for the default query, stored 100 seconds ago: with one
  record, and with an empty payload.\<close>

definition world_hit :: world where
  "world_hit = world0\<lparr>cache := [''google_trends_IN_now 1-d'' \<mapsto> Entry 900 [rec0]]\<rparr>"

definition world_empty_hit :: world where
  "world_empty_hit = world0\<lparr>cache := [''google_trends_IN_now 1-d'' \<mapsto> Entry 900 []]\<rparr>"





section \<open>Request throttle\<close>

text \<open>
  C8. \<open>can_make_request\<close> is true exactly when the last-request file is absent, is
  unreadable, or holds a time at least \<open>MIN_REQUEST_INTERVAL\<close> = 60 seconds old; so
  after \<open>record_request_time\<close> has written the file, and \<open>d\<close> seconds later, it is
  false while \<open>d < 60\<close> and true from \<open>d = 60\<close> on.
\<close>

theorem throttle_window:
  "(can_make_request w \<longleftrightarrow>
      (last_request w = None \<or> last_request w = Some Garbled \<or>
       (\<exists>t. last_request w = Some (Stamp t) \<and> MIN_REQUEST_INTERVAL \<le> clock w - t)))
   \<and> MIN_REQUEST_INTERVAL = 60
   \<and> (record_request_time w = Inr w' \<longrightarrow>
        (\<forall>d. can_make_request (elapse d w') \<longleftrightarrow> 60 \<le> d))"
  by (auto simp: can_make_request_def record_request_time_def elapse_def MIN_REQUEST_INTERVAL_def
      split: option.splits stamp_file.splits)

theorem throttle_window_witness:
  "record_request_time world0 = Inr (world0\<lparr>last_request := Some (Stamp 1000)\<rparr>)
   \<and> \<not> can_make_request (elapse 59 (world0\<lparr>last_request := Some (Stamp 1000)\<rparr>))
   \<and> can_make_request (elapse 60 (world0\<lparr>last_request := Some (Stamp 1000)\<rparr>))"
proof -
  have r: "record_request_time world0 = Inr (world0\<lparr>last_request := Some (Stamp 1000)\<rparr>)"
    by (simp add: record_request_time_def world0_def)
  from throttle_window [of world0 "world0\<lparr>last_request := Some (Stamp 1000)\<rparr>"] r
  have "\<forall>d. can_make_request (elapse d (world0\<lparr>last_request := Some (Stamp 1000)\<rparr>)) \<longleftrightarrow> 60 \<le> d"
    by blast
  then have "\<not> can_make_request (elapse 59 (world0\<lparr>last_request := Some (Stamp 1000)\<rparr>))"
    and "can_make_request (elapse 60 (world0\<lparr>last_request := Some (Stamp 1000)\<rparr>))"
    by simp_all
  with r show ?thesis by simp
qed

section \<open>Response cache\<close>




section \<open>Keyword discovery\<close>

lemma length_set_update:
  "length acc \<le> length (set_update acc xs) \<and> length (set_update acc xs) \<le> length acc + length xs"
  unfolding set_update_def
proof (induction xs arbitrary: acc)
  case Nil
  show ?case by simp
next
  case (Cons x xs)
  show ?case using Cons.IH [of acc] Cons.IH [of "acc @ [x]"] by auto
qed

lemma length_discover:
  "discover e seeds acc w = (ks, w') \<Longrightarrow>
   length acc \<le> length ks \<and> length ks \<le> length acc + 2 * length seeds"
proof (induction seeds arbitrary: acc w)
  case Nil
  then show ?case by simp
next
  case (Cons seed seeds)
  show ?case
  proof (cases "suggest e seed")
    case (Lookup_failed ex)
    with Cons.prems Cons.IH [of acc "request ''suggest'' w"] show ?thesis by simp
  next
    case (Lookup_reply st body)
    show ?thesis
    proof (cases "st = 200")
      case False
      with Lookup_reply Cons.prems
        Cons.IH [of acc "sleep_uniform 1 2 (request ''suggest'' w)"]
      show ?thesis by simp
    next
      case True
      show ?thesis
      proof (cases body)
        case None
        with True Lookup_reply Cons.prems Cons.IH [of acc "request ''suggest'' w"]
        show ?thesis by simp
      next
        case (Some suggestions)
        let ?acc = "set_update acc (take 2 suggestions)"
        from Some True Lookup_reply Cons.prems
        have "discover e seeds ?acc (sleep_uniform 1 2 (request ''suggest'' w)) = (ks, w')"
          by simp
        from Cons.IH [OF this] length_set_update [of acc "take 2 suggestions"]
        show ?thesis by auto
      qed
    qed
  qed
qed

text \<open>
  C10. \<open>fetch_dynamic_keywords\<close> returns between 5 and 10 keywords, whatever the
  suggestion lookup answers: the five seed terms are in the accumulator before the first
  lookup, each of the three lookups adds at most two, and the list is cut at 10.
\<close>

theorem discovery_size:
  "5 \<le> length (fst (fetch_dynamic_keywords e w)) \<and>
   length (fst (fetch_dynamic_keywords e w)) \<le> 10"
proof -
  obtain ks w' where d: "discover e (take 3 seed_terms) (set_update [] seed_terms) w = (ks, w')"
    by (cases "discover e (take 3 seed_terms) (set_update [] seed_terms) w")
  have s: "set_update [] seed_terms = seed_terms"
    by (simp add: set_update_def seed_terms_def)
  have "length (set_update [] seed_terms) = 5"
    by (simp add: s) (simp add: seed_terms_def)
  with length_discover [OF d] have "5 \<le> length ks" by simp
  moreover have "fst (fetch_dynamic_keywords e w) = take 10 (list_of_set e ks)"
    by (simp add: fetch_dynamic_keywords_def d)
  ultimately show ?thesis by (simp add: list_of_set_def)
qed

text \<open>C10 at a concrete input: one lookup adds a suggestion, six keywords come back.\<close>

theorem discovery_size_witness:
  "5 \<le> length (fst (fetch_dynamic_keywords env_dup world0)) \<and>
   length (fst (fetch_dynamic_keywords env_dup world0)) \<le> 10 \<and>
   fst (fetch_dynamic_keywords env_dup world0) =
     [''education'', ''exam'', ''online course'', ''study tips'', ''scholarship'', ''Exam'']"
proof -
  have "fst (fetch_dynamic_keywords env_dup world0) =
     [''education'', ''exam'', ''online course'', ''study tips'', ''scholarship'', ''Exam'']"
    by code_simp
  with discovery_size [of env_dup world0] show ?thesis by blast
qed

section \<open>Normalising and ranking the primary answer\<close>


















section \<open>Scores of raw rows\<close>




section \<open>The trending list\<close>

lemma trending_rows_filter:
  "trending_rows now ps results =
     results @ map (trending_record now) (filter (\<lambda>p. is_education (snd p)) ps)"
  by (induction now ps results rule: trending_rows.induct) (simp_all add: trending_record_def)

text \<open>
  C5, as stated: for the list \<open>iPhone 16 launch, JEE Main result 2025, Cricket score\<close>
  the one record returned has score 100. It has score 99: the index is the entry's
  place in the provider's list, and the kept entry is at index 1.
\<close>

theorem trending_scenario_counterexample:
  "fst (get_trending_topics env0 ''IN'' world0) =
     Inr [\<lparr>keyword = ''JEE Main result 2025'', score = 99, rtype = ''trending'',
           source = ''google_trending'', timestamp = 1000\<rparr>]"
  by code_simp

text \<open>
  C5, amended. On a cache miss, when the provider answers with the list \<open>trending\<close>,
  \<open>get_trending_topics\<close> returns one record for each entry that contains one of the
  education terms (compared in lower case), in the order of the list, with score 100
  minus the index of the entry in the provider's list (counted from 0, before filtering).
\<close>

theorem trending_topics_scores:
  assumes "\<not> truthy (get_cached_results (''trending_topics_'' @ geo) (1 / 2) w)"
    and "trendreq_basic e = None"
    and "trending_searches e (py_lower geo) = Inr trending"
  shows "fst (get_trending_topics e geo w) =
     Inr (map (trending_record (clock w))
            (filter (\<lambda>p. is_education (snd p)) (enumerate 0 trending)))"
  using assms
  by (simp add: get_trending_topics_def trending_body_def Let_def trending_rows_filter request_def)

text \<open>C5, amended, on the list of the scenario.\<close>

theorem trending_topics_scores_witness:
  "fst (get_trending_topics env0 ''IN'' world0) =
     Inr (map (trending_record (clock world0))
            (filter (\<lambda>p. is_education (snd p))
               (enumerate 0 [''iPhone 16 launch'', ''JEE Main result 2025'', ''Cricket score''])))"
proof -
  have m: "\<not> truthy (get_cached_results (''trending_topics_'' @ ''IN'') (1 / 2) world0)"
    by (simp add: get_cached_results_def world0_def)
  have b: "trendreq_basic env0 = None" by (simp add: env0_def)
  have t: "trending_searches env0 (py_lower ''IN'') =
      Inr [''iPhone 16 launch'', ''JEE Main result 2025'', ''Cricket score'']"
    by (simp add: env0_def)
  from trending_topics_scores [OF m b t] show ?thesis .
qed

section \<open>Retrieval: cache, retries, fallback, errors\<close>



subsection \<open>The primary-query path\<close>







text \<open>
  C7, as stated: a fresh entry is returned without contacting the provider also when
  its payload is the empty list. It is not: \<^verbatim>\<open>if cached\<close> is false for an empty
  list, so the call goes on to the suggestion lookup and the provider, and here returns
  two records.
\<close>

theorem empty_cache_entry_counterexample:
  "get_cached_results ''google_trends_IN_now 1-d'' 1 world_empty_hit = Some []
   \<and> fst (fetch_google_trends env_dup ''IN'' ''now 1-d'' True 1 world_empty_hit) =
     Inr [\<lparr>keyword = ''exam'', score = 50, rtype = ''interest'',
           source = ''google_trends_fallback'', timestamp = 2009 / 2\<rparr>,
          \<lparr>keyword = ''Exam'', score = 40, rtype = ''interest'',
           source = ''google_trends_fallback'', timestamp = 2009 / 2\<rparr>]
   \<and> trace (snd (fetch_google_trends env_dup ''IN'' ''now 1-d'' True 1 world_empty_hit)) =
     [Request ''suggest'', Sleep_uniform 1 2, Request ''suggest'', Sleep_uniform 1 2,
      Request ''suggest'', Sleep_uniform 1 2, Request ''TrendReq'', Request ''build_payload'',
      Request ''related_queries'', Request ''interest_over_time'']"
  by code_simp

text \<open>
  C7, amended. When the cache entry of the query key is fresh (its age is below
  \<open>cache_hours\<close>) and its payload is not empty, \<open>fetch_google_trends\<close> with
  \<open>use_cache\<close> returns the payload and leaves the world, its trace of outbound calls
  included, as it was. When the payload is the empty list the entry counts as a miss: the
  call does what it does with \<open>use_cache\<close> off.
\<close>

theorem fresh_cache_hit:
  assumes "cache w (''google_trends_'' @ geo @ ''_'' @ timeframe) = Some (Entry stored_at payload)"
    and "clock w - stored_at < cache_hours * 3600"
  shows "(payload \<noteq> [] \<longrightarrow>
            fetch_google_trends e geo timeframe True cache_hours w = (Inr payload, w))
       \<and> (payload = [] \<longrightarrow>
            fetch_google_trends e geo timeframe True cache_hours w =
            fetch_google_trends e geo timeframe False cache_hours w)"
proof -
  from assms have g: "get_cached_results (''google_trends_'' @ geo @ ''_'' @ timeframe) cache_hours w
      = Some payload"
    by (simp add: get_cached_results_def)
  show ?thesis
  proof (cases payload)
    case Nil
    with g show ?thesis by (simp add: fetch_google_trends_def Let_def)
  next
    case (Cons r rs)
    with g show ?thesis by (simp add: fetch_google_trends_def Let_def)
  qed
qed

text \<open>C7, amended, at a fresh entry with one record, with a provider that is down.\<close>

theorem fresh_cache_hit_witness:
  "fetch_google_trends env_down ''IN'' ''now 1-d'' True 1 world_hit = (Inr [rec0], world_hit)"
  using fresh_cache_hit [of world_hit "''IN''" "''now 1-d''" 900 "[rec0]" 1 env_down]
  by (simp add: world_hit_def world0_def)






subsection \<open>Which exceptions reach the caller\<close>

lemma get_trending_topics_never_raises:
  "\<exists>results. fst (get_trending_topics e geo w) = Inr results"
  by (auto simp: get_trending_topics_def Let_def split: prod.splits sum.splits)

lemma fetch_raises_only_from_constructor:
  "fst (fetch_google_trends e geo timeframe use_cache cache_hours w) = Inl ex \<Longrightarrow>
   fst (make_trendreq e (snd (fetch_dynamic_keywords e w))) = Inl ex"
  by (auto simp: fetch_google_trends_def Let_def split: if_splits prod.splits sum.splits)

lemma fetch_raises_when_constructor_raises:
  assumes "use_cache \<longrightarrow>
       \<not> truthy (get_cached_results (''google_trends_'' @ geo @ ''_'' @ timeframe) cache_hours w)"
    and "can_make_request w"
    and "trendreq_full e = Some ex" and "exn_class_of ex \<noteq> TypeError"
  shows "fst (fetch_google_trends e geo timeframe use_cache cache_hours w) = Inl ex"
proof (cases use_cache)
  case True
  with assms show ?thesis
    by (simp add: fetch_google_trends_def make_trendreq_def Let_def split: prod.splits)
next
  case False
  with assms show ?thesis
    by (simp add: fetch_google_trends_def make_trendreq_def Let_def split: prod.splits)
qed

text \<open>
  C4. The claim is that no exception of the provider ever reaches the caller of
  \<open>fetch_google_trends\<close>. The constructor of the provider object is called before the
  \<^verbatim>\<open>try\<close> block, guarded against \<^verbatim>\<open>TypeError\<close> only: when it fails with any
  other error, on a cache miss with the throttle open, the call raises that error.
\<close>

theorem constructor_error_propagates:
  "fst (fetch_google_trends env_down ''IN'' ''now 1-d'' True 1 world0) =
     Inl (Exn ProviderError ''Connection aborted'')"
  by code_simp

end
